theory Spec2Isabelle
  imports Complex_Main
begin

section \<open>Python values\<close>

text \<open>
  The scanner computes with Python floats. They are modelled as exact reals: every
  comparison, tier boundary and clamp of the source is kept as written, and rounding is
  not modelled. A property stated "within floating tolerance" is therefore an equality
  here.

  The only exception that the pure cost functions can raise is the \<open>TypeError\<close> of
  comparing a complex number with a float: \<open>x ** y\<close> with a negative float \<open>x\<close> and a
  fractional \<open>y\<close> evaluates to a complex number in Python 3, which the arithmetic that
  follows keeps complex and which \<open>max\<close> then refuses to order.
\<close>

datatype py_error = TypeError

definition float_pow :: "real \<Rightarrow> real \<Rightarrow> py_error + real" where
  \<comment> \<open>\<open>x ** y\<close> for a fractional exponent \<open>y\<close>, the result feeding a \<open>max\<close>\<close>
  "float_pow x y = (if x < 0 then Inl TypeError else Inr (x powr y))"

text \<open>
  A Python dict keeps its keys in insertion order; storing under a key that is present
  replaces the value in place.
\<close>

type_synonym 'v dict = "(string \<times> 'v) list"

fun dict_set :: "string \<Rightarrow> 'v \<Rightarrow> 'v dict \<Rightarrow> 'v dict" where
  "dict_set k v [] = [(k, v)]"
| "dict_set k v ((k', v') # d) = (if k' = k then (k, v) # d else (k', v') # dict_set k v d)"

definition dict_values :: "'v dict \<Rightarrow> 'v list" where
  "dict_values d = map snd d"

section \<open>Token categories (arbitrage.py)\<close>

definition MAJOR_TOKENS :: "string set" where
  "MAJOR_TOKENS =
    {''So11111111111111111111111111111111111111112'',
     ''EPjFWdd5AufqSSqeM2qN1xzybapC8G4wEGGkZwyTDt1v'',
     ''Es9vMFrzaCERmJfrF4H2FYD4KCoNkY11McCe8BenwNYB'',
     ''mSoLzYCxHdYgdzU16g5QSh3i5K3z3KZK7ytfqcJm7So'',
     ''7dHbWXmci3dT8UFYWYZweBLXgycu7Y3iL6trKn1Y7ARj''}"

definition MEDIUM_TOKENS :: "string set" where
  "MEDIUM_TOKENS =
    {''DezXAZ8z7PnrnRJjz3wXBoRgixCa6xjnB7YaB1pPB263'',
     ''EKpQGSJtjMFqKZ9KQanSqYXRcF8fBopzLHYxdM65zcjm'',
     ''HZ1JovNiVvGrGNiiYvEozEVgZ58xaU3RKwX8eACQBCt3'',
     ''JUPyiwrYJFskUPiHa7hkeR8VUtAeFoSYbKedZNsDvCN'',
     ''4k3Dyjzvzp8eMZWUXbBCjEvwSkkk59S5iCNLY3QrkX6R''}"

section \<open>Cost model (arbitrage.py)\<close>

definition estimate_slippage ::
  "string \<Rightarrow> real \<Rightarrow> real \<Rightarrow> int option \<Rightarrow> real \<Rightarrow> int \<Rightarrow> py_error + real" where
  "estimate_slippage token_mint liquidity_usd swap_size_usd fee_bps price_coherence pool_count =
    (let base_slippage0 =
           (if token_mint \<in> MAJOR_TOKENS then 0.0005
            else if token_mint \<in> MEDIUM_TOKENS then 0.0020
            else 0.0040);
         coherence_multiplier = max 0.5 (2.0 - price_coherence);
         base_slippage1 = base_slippage0 * coherence_multiplier;
         pool_multiplier = max 1.0 (2.0 - (real_of_int pool_count * 0.2));
         base_slippage = base_slippage1 * pool_multiplier;
         liq_multiplier =
           (if liquidity_usd \<ge> 1000000 then 0.5
            else if liquidity_usd \<ge> 500000 then 0.75
            else if liquidity_usd \<ge> 100000 then 1.0
            else if liquidity_usd \<ge> 50000 then 1.25
            else if liquidity_usd \<ge> 10000 then 1.5
            else 2.0);
         size_multiplier =
           (if liquidity_usd > 0
            then (let size_ratio0 = swap_size_usd / liquidity_usd;
                      size_ratio = min size_ratio0 0.1
                  in case float_pow size_ratio 0.7 of
                       Inl e \<Rightarrow> Inl e
                     | Inr pw \<Rightarrow> Inr (1 + pw * 2.0))
            else Inr 2.0);
         fee_multiplier =
           (case fee_bps of
              None \<Rightarrow> 1.0
            | Some bps \<Rightarrow>
                if bps = 0 then 1.0
                else if bps \<ge> 300 then 1.2
                else if bps \<ge> 100 then 1.0
                else 0.9)
     in case size_multiplier of
          Inl e \<Rightarrow> Inl e
        | Inr sm \<Rightarrow>
            (let slippage = base_slippage * liq_multiplier * sm * fee_multiplier
             in Inr (min (max slippage 0.0005) 0.015)))"

definition estimate_price_impact :: "real \<Rightarrow> real \<Rightarrow> py_error + real" where
  "estimate_price_impact liquidity_usd swap_size_usd =
    (let base_impact =
           (if liquidity_usd \<ge> 1000000 then 0.0005
            else if liquidity_usd \<ge> 200000 then 0.0010
            else if liquidity_usd \<ge> 20000 then 0.0020
            else 0.0050)
     in case float_pow (swap_size_usd / 1000) 0.5 of
          Inl e \<Rightarrow> Inl e
        | Inr size_multiplier \<Rightarrow>
            (let impact = base_impact * size_multiplier
             in Inr (min (max impact 0.0005) 0.02)))"

text \<open>
  In \<open>calculate_price_coherence\<close> the power \<open>variance ** 0.5\<close> has a base that is a
  mean of squares, never negative, so it is the real square root.
\<close>

definition calculate_price_coherence :: "real dict \<Rightarrow> real" where
  "calculate_price_coherence prices =
    (if length prices < 2 then 0.0
     else
       (let price_values = dict_values prices;
            avg_price = sum_list price_values / real (length price_values)
        in if avg_price = 0 then 0.0
           else
             (let variance = sum_list (map (\<lambda>p. (p - avg_price) ^ 2) price_values)
                               / real (length price_values);
                  std_dev = sqrt variance;
                  cv = std_dev / avg_price;
                  coherence = max 0 (1 - (cv * 10))
              in min coherence 1.0)))"

definition assess_volatility_risk :: "real \<Rightarrow> real \<Rightarrow> real" where
  "assess_volatility_risk spread_brut price_coherence =
    (let spread_risk = min (spread_brut * 10) 1.0;
         coherence_risk = 1 - price_coherence;
         risk = (spread_risk * 0.4) + (coherence_risk * 0.6)
     in min (max risk 0) 1.0)"

definition calculate_confidence_score :: "real dict \<Rightarrow> real \<Rightarrow> real \<Rightarrow> real \<Rightarrow> int" where
  "calculate_confidence_score prices liquidity_usd volume_24h spread_brut =
    (let dex_count = length prices;
         price_coherence = calculate_price_coherence prices;
         coherence_score = price_coherence * 30;
         liq_score =
           (if liquidity_usd \<ge> 500000 then 30
            else if liquidity_usd \<ge> 100000 then 25
            else if liquidity_usd \<ge> 50000 then 20
            else if liquidity_usd \<ge> 10000 then 10
            else 5);
         volatility_risk = assess_volatility_risk spread_brut price_coherence;
         volatility_score = (1 - volatility_risk) * 20;
         dex_score =
           (if dex_count \<ge> 4 then 10
            else if dex_count \<ge> 3 then 7
            else if dex_count \<ge> 2 then 4
            else 0);
         volume_score =
           (if volume_24h \<ge> 1000000 then 10
            else if volume_24h \<ge> 100000 then 7
            else if volume_24h \<ge> 10000 then 4
            else 2);
         total = coherence_score + liq_score + volatility_score + dex_score + volume_score
     in \<lfloor>min (max total 0) 100\<rfloor>)"

subsection \<open>MEV risk assessment\<close>

datatype risk_level = Low | Medium | High

record mev_assessment =
  risk_level :: risk_level
  slippage_buffer :: real
  should_reject :: bool
  reason :: "string option"

definition assess_mev_risk :: "string \<Rightarrow> real \<Rightarrow> real \<Rightarrow> mev_assessment" where
  "assess_mev_risk token_mint liquidity_usd spread_brut =
    (let a0 = \<lparr>risk_level = Low, slippage_buffer = 0.0, should_reject = False, reason = None\<rparr>;
         a1 =
           (if spread_brut > 0.05 \<and> liquidity_usd < 50000
            then \<lparr>risk_level = High, slippage_buffer = 0.005, should_reject = True,
                  reason = Some ''High spread with low liquidity - likely MEV bait''\<rparr>
            else if liquidity_usd < 10000
            then \<lparr>risk_level = High, slippage_buffer = 0.005, should_reject = True,
                  reason = Some ''Liquidity too low - high manipulation risk''\<rparr>
            else if liquidity_usd < 50000 \<or> spread_brut > 0.03
            then a0\<lparr>risk_level := Medium, slippage_buffer := 0.002\<rparr>
            else a0)
     in if token_mint \<in> MAJOR_TOKENS
        then a1\<lparr>risk_level := Low, slippage_buffer := 0.0, should_reject := False, reason := None\<rparr>
        else a1)"

subsection \<open>Network fee (fees.py)\<close>

definition SOLANA_BASE_FEE_LAMPORTS :: real where
  "SOLANA_BASE_FEE_LAMPORTS = 5000"

definition SOLANA_PRIORITY_FEE_LAMPORTS :: real where
  "SOLANA_PRIORITY_FEE_LAMPORTS = 10000"

definition SOLANA_TOTAL_FEE_LAMPORTS :: real where
  "SOLANA_TOTAL_FEE_LAMPORTS = SOLANA_BASE_FEE_LAMPORTS + SOLANA_PRIORITY_FEE_LAMPORTS"

text \<open>
  \<open>SOL_PRICE_USD\<close> is a module global that \<open>update_price_feeds\<close> may overwrite, so the
  estimator takes it as an argument. The division by a zero swap size raises
  \<open>ZeroDivisionError\<close> inside the function's \<open>try\<close>, whose handler returns 0.0004.
\<close>

definition estimate_solana_network_fee :: "real \<Rightarrow> real \<Rightarrow> real" where
  "estimate_solana_network_fee sol_price_usd swap_size_usd =
    (let total_fee_usd = (SOLANA_TOTAL_FEE_LAMPORTS / 1000000000) * sol_price_usd
     in if swap_size_usd = 0 then 0.0004
        else (let fee_percentage = total_fee_usd / swap_size_usd
              in min fee_percentage 0.001))"

section \<open>Pool normalizer (pool_prices.py)\<close>




text \<open>
  Pools are Python dicts. The fetchers of \<open>pool_fetchers.py\<close> store every key of a raw
  pool, so a raw pool is a record; only \<open>price\<close> may be \<open>None\<close>. An absent or empty token
  address is the empty string (both are falsy). The keys that a normalised pool copies
  from the raw one form the common part.
\<close>

record pool_common =
  pool_id :: string
  dex :: string
  fee_pct :: real
  fee_bps :: int
  liquidity_usd :: real
  pool_type :: string


record norm_pool = pool_common +
  buy_price :: real
  sell_price :: real
  url :: string









definition filter_pools_by_liquidity :: "norm_pool list \<Rightarrow> real \<Rightarrow> norm_pool list" where
  "filter_pools_by_liquidity pools min_liquidity_usd =
    filter (\<lambda>p. liquidity_usd p \<ge> min_liquidity_usd) pools"

text \<open>
  Python's \<open>sorted\<close> is stable, also under \<open>reverse=True\<close>, where elements with equal
  keys keep their original order. \<open>sort_key\<close> is stable, and sorting on the negated key
  gives the descending order with the same treatment of ties.
\<close>

definition sort_pools_by_buy_price :: "norm_pool list \<Rightarrow> norm_pool list" where
  "sort_pools_by_buy_price pools = sort_key buy_price pools"

definition sort_pools_by_sell_price :: "norm_pool list \<Rightarrow> norm_pool list" where
  "sort_pools_by_sell_price pools = sort_key (\<lambda>p. - sell_price p) pools"


section \<open>Deep evaluator (arbitrage.py, \<open>compute_spread_and_metrics\<close>)\<close>

text \<open>
  The function is one long body; the model cuts it where the source's own comments do.
  \<open>select_pools\<close> is steps 1 and 2 after the liquidity filter, \<open>analyse_pools\<close> runs
  steps 1 to 5 (selection, guardrails, costs, net spread) and \<open>compute_spread_and_metrics\<close>
  adds steps 6 to 8 (MEV rejection, threshold, confidence, result). Its argument \<open>fetched\<close>
  is the list that \<open>get_pool_prices_for_token\<close> returned. A result \<open>Inr None\<close> is the
  source's \<open>return None\<close>, \<open>Inl e\<close> an exception that leaves the function. The
  parameter \<open>liquidity_usd\<close> is only the default of \<open>.get("liquidity_usd", ...)\<close> on
  pools that always carry the key, and \<open>estimate_network_fee("solana", ...)\<close> is the
  Solana estimator. Logging, the event-loop timestamp and the \<open>details\<close> and deprecated
  duplicate entries of the result dict are left out.
\<close>

record settings =
  MIN_SPREAD_AFTER_FEES :: real
  SOL_PRICE_USD :: real

definition default_settings :: settings where
  "default_settings = \<lparr>MIN_SPREAD_AFTER_FEES = 0.0025, SOL_PRICE_USD = 150.0\<rparr>"

definition pool_prices_dict :: "norm_pool list \<Rightarrow> real dict" where
  \<comment> \<open>\<open>{p.get("dex"): p.get("buy_price") for p in pools if p.get("buy_price")}\<close>\<close>
  "pool_prices_dict pools =
    foldl (\<lambda>d p. if buy_price p \<noteq> 0 then dict_set (dex p) (buy_price p) d else d) [] pools"

definition prices_inconsistent :: "norm_pool \<Rightarrow> bool" where
  \<comment> \<open>the per-pool guardrail: both prices truthy and \<open>buy_price > sell_price\<close>\<close>
  "prices_inconsistent p =
    (buy_price p \<noteq> 0 \<and> sell_price p \<noteq> 0 \<and> buy_price p > sell_price p)"

definition select_pools :: "norm_pool list \<Rightarrow> (norm_pool \<times> norm_pool) option" where
  "select_pools pools =
    (if length pools < 2 then None
     else if length (remdups (map dex pools)) < 2 then None
     else
       (let sorted_by_buy = sort_pools_by_buy_price pools;
            buy_pool = sorted_by_buy ! 0;
            sorted_by_sell = sort_pools_by_sell_price pools;
            sell_pool = sorted_by_sell ! 0
        in if pool_id buy_pool = pool_id sell_pool
           then (if length pools < 3 then None
                 else Some (buy_pool, sorted_by_sell ! 1))
           else Some (buy_pool, sell_pool)))"

definition gross_spread :: "norm_pool \<Rightarrow> norm_pool \<Rightarrow> real" where
  \<comment> \<open>\<open>spread_brut = (sell_price - buy_price) / buy_price\<close> of the selected pair\<close>
  "gross_spread buy_pool sell_pool =
    (sell_price sell_pool - buy_price buy_pool) / buy_price buy_pool"

record cost_breakdown =
  c_dex_fee_buy :: real
  c_dex_fee_sell :: real
  c_total_dex_fees :: real
  c_network_fee :: real
  c_slippage_base :: real
  c_slippage_buffer :: real
  c_total_slippage :: real
  c_price_impact :: real
  c_total_costs :: real

record analysis =
  a_pools :: "norm_pool list"
  a_buy_pool :: norm_pool
  a_sell_pool :: norm_pool
  a_spread_brut :: real
  a_price_coherence :: real
  a_avg_pool_liq :: real
  a_mev_assessment :: mev_assessment
  a_costs :: cost_breakdown
  a_spread_net :: real

definition analyse_pools ::
  "settings \<Rightarrow> string \<Rightarrow> real \<Rightarrow> norm_pool list \<Rightarrow> py_error + analysis option" where
  "analyse_pools cfg token_mint swap_size_usd fetched =
    (let pools = filter_pools_by_liquidity fetched 10000
     in case select_pools pools of
          None \<Rightarrow> Inr None
        | Some (buy_pool, sell_pool) \<Rightarrow>
            if buy_price buy_pool \<le> 0 \<or> sell_price sell_pool \<le> 0 then Inr None
            else
              (let spread_brut = gross_spread buy_pool sell_pool;
                   all_prices = pool_prices_dict pools;
                   price_coherence = calculate_price_coherence all_prices
               in if length pools < 3 \<and> spread_brut > 0.10 \<and> price_coherence < 0.8 then Inr None
                  else if spread_brut > 0.20 then Inr None
                  else if prices_inconsistent buy_pool then Inr None
                  else if prices_inconsistent sell_pool then Inr None
                  else
                    (let buy_pool_fee_pct = fee_pct buy_pool;
                         sell_pool_fee_pct = fee_pct sell_pool;
                         total_dex_fees = buy_pool_fee_pct + sell_pool_fee_pct;
                         network_fee = estimate_solana_network_fee (SOL_PRICE_USD cfg) swap_size_usd;
                         buy_pool_liq = liquidity_usd buy_pool;
                         sell_pool_liq = liquidity_usd sell_pool;
                         avg_pool_liq = (buy_pool_liq + sell_pool_liq) / 2
                     in if avg_pool_liq < 10000 then Inr None
                        else if min buy_pool_liq sell_pool_liq < 5000 then Inr None
                        else
                          (case estimate_slippage token_mint buy_pool_liq swap_size_usd
                                  (Some (fee_bps buy_pool)) price_coherence (int (length pools)) of
                             Inl e \<Rightarrow> Inl e
                           | Inr buy_slippage \<Rightarrow>
                          (case estimate_slippage token_mint sell_pool_liq swap_size_usd
                                  (Some (fee_bps sell_pool)) price_coherence (int (length pools)) of
                             Inl e \<Rightarrow> Inl e
                           | Inr sell_slippage \<Rightarrow>
                          (let base_slippage = (buy_slippage + sell_slippage) / 2;
                               mev = assess_mev_risk token_mint avg_pool_liq spread_brut;
                               total_slippage = buy_slippage + sell_slippage + slippage_buffer mev
                           in case estimate_price_impact avg_pool_liq swap_size_usd of
                                Inl e \<Rightarrow> Inl e
                              | Inr price_impact \<Rightarrow>
                                  (let total_costs = total_dex_fees + network_fee
                                                       + total_slippage + price_impact;
                                       spread_net = spread_brut - total_costs
                                   in Inr (Some
                                        \<lparr>a_pools = pools, a_buy_pool = buy_pool,
                                         a_sell_pool = sell_pool, a_spread_brut = spread_brut,
                                         a_price_coherence = price_coherence,
                                         a_avg_pool_liq = avg_pool_liq,
                                         a_mev_assessment = mev,
                                         a_costs =
                                           \<lparr>c_dex_fee_buy = buy_pool_fee_pct,
                                            c_dex_fee_sell = sell_pool_fee_pct,
                                            c_total_dex_fees = total_dex_fees,
                                            c_network_fee = network_fee,
                                            c_slippage_base = base_slippage,
                                            c_slippage_buffer = slippage_buffer mev,
                                            c_total_slippage = total_slippage,
                                            c_price_impact = price_impact,
                                            c_total_costs = total_costs\<rparr>,
                                         a_spread_net = spread_net\<rparr>))))))))"

record opportunity =
  o_token :: string
  o_base :: string
  o_buy_dex :: string
  o_sell_dex :: string
  o_buy_pool_id :: string
  o_sell_pool_id :: string
  o_buy_pool_url :: string
  o_sell_pool_url :: string
  o_buy_price :: real
  o_sell_price :: real
  o_pool_count :: nat
  o_prices :: "real dict"
  o_dex_count :: nat
  o_spread_brut :: real
  o_spread_net :: real
  o_costs :: cost_breakdown
  o_liquidity_usd :: real
  o_volume_24h :: real
  o_confidence_score :: int
  o_mev_risk :: risk_level
  o_profit_estimate_usd :: real
  o_liquidity_check :: bool
  o_volume_check :: bool

definition compute_spread_and_metrics ::
  "settings \<Rightarrow> string \<Rightarrow> string \<Rightarrow> real \<Rightarrow> real \<Rightarrow> norm_pool list
     \<Rightarrow> py_error + opportunity option" where
  "compute_spread_and_metrics cfg token_mint base_mint volume_24h swap_size_usd fetched =
    (case analyse_pools cfg token_mint swap_size_usd fetched of
       Inl e \<Rightarrow> Inl e
     | Inr None \<Rightarrow> Inr None
     | Inr (Some a) \<Rightarrow>
         if should_reject (a_mev_assessment a) then Inr None
         else if a_spread_net a < MIN_SPREAD_AFTER_FEES cfg then Inr None
         else
           (let prices = pool_prices_dict (a_pools a);
                confidence_score =
                  calculate_confidence_score prices (a_avg_pool_liq a) volume_24h (a_spread_brut a)
            in if a_price_coherence a < 0.5 then Inr None
               else Inr (Some
                 \<lparr>o_token = token_mint, o_base = base_mint,
                  o_buy_dex = dex (a_buy_pool a), o_sell_dex = dex (a_sell_pool a),
                  o_buy_pool_id = pool_id (a_buy_pool a),
                  o_sell_pool_id = pool_id (a_sell_pool a),
                  o_buy_pool_url = url (a_buy_pool a), o_sell_pool_url = url (a_sell_pool a),
                  o_buy_price = buy_price (a_buy_pool a),
                  o_sell_price = sell_price (a_sell_pool a),
                  o_pool_count = length (a_pools a),
                  o_prices = prices,
                  o_dex_count = length (remdups (map dex (a_pools a))),
                  o_spread_brut = a_spread_brut a, o_spread_net = a_spread_net a,
                  o_costs = a_costs a,
                  o_liquidity_usd = a_avg_pool_liq a, o_volume_24h = volume_24h,
                  o_confidence_score = confidence_score,
                  o_mev_risk = risk_level (a_mev_assessment a),
                  o_profit_estimate_usd = a_spread_net a * swap_size_usd,
                  o_liquidity_check = (a_avg_pool_liq a \<ge> 50000),
                  o_volume_check = (volume_24h \<ge> 10000)\<rparr>)))"


section \<open>Pairwise evaluator (arbitrage.py, \<open>compute_pool_arbitrage\<close>)\<close>

text \<open>
  The scan loop of \<open>main.py\<close> passes normalised pools enriched with \<open>token\<close> and
  \<open>chain\<close>. A numeric entry that is missing or \<open>None\<close> is the number 0, which
  \<open>x or 0\<close> maps it to; a missing chain is the empty string. With numeric entries no
  statement of the \<open>try\<close> block raises, so the handler that returns \<open>None\<close> is never
  entered. The nested \<open>details\<close> dict of the result is left out.

  The source writes the gross spread, the fee sum and the net spread once for each
  direction, the same three formulas with the pools exchanged (\<open>spread1_brut\<close>,
  \<open>fee1\<close>, \<open>spread1_net\<close> for buying on A and selling on B, \<open>spread2_brut\<close>,
  \<open>fee2\<close>, \<open>spread2_net\<close> for the reverse). \<open>scenario_brut\<close>, \<open>scenario_fee\<close>
  and \<open>scenario_net\<close> are these formulas for a given (buy, sell) order. The parameter
  \<open>token\<close> is written \<open>tok\<close>, the name being a field of the pool.
\<close>

record scan_pool = norm_pool +
  token :: string
  chain :: string

record pair_opportunity =
  po_chain :: string
  po_token :: string
  po_buy_dex :: string
  po_sell_dex :: string
  po_buy_pool_id :: string
  po_sell_pool_id :: string
  po_buy_pool_url :: string
  po_sell_pool_url :: string
  po_buy_price :: real
  po_sell_price :: real
  po_spread_brut :: real
  po_spread_net :: real
  po_total_fees_pct :: real

definition scenario_brut :: "scan_pool \<Rightarrow> scan_pool \<Rightarrow> real" where
  \<comment> \<open>gross spread of buying on the first pool and selling on the second\<close>
  "scenario_brut buy_pool sell_pool =
    (sell_price sell_pool - buy_price buy_pool) / buy_price buy_pool"

definition scenario_fee :: "scan_pool \<Rightarrow> scan_pool \<Rightarrow> real" where
  "scenario_fee buy_pool sell_pool = fee_pct buy_pool + fee_pct sell_pool"

definition scenario_net :: "scan_pool \<Rightarrow> scan_pool \<Rightarrow> real" where
  "scenario_net buy_pool sell_pool = scenario_brut buy_pool sell_pool - scenario_fee buy_pool sell_pool"

definition pair_result :: "string \<Rightarrow> scan_pool \<Rightarrow> scan_pool \<Rightarrow> pair_opportunity" where
  \<comment> \<open>the returned dict, once the direction \<open>(buy_pool, sell_pool)\<close> is chosen\<close>
  "pair_result tok buy_pool sell_pool =
    \<lparr>po_chain = (if chain buy_pool \<noteq> [] then chain buy_pool
                  else if chain sell_pool \<noteq> [] then chain sell_pool
                  else ''solana''),
     po_token = tok,
     po_buy_dex = dex buy_pool, po_sell_dex = dex sell_pool,
     po_buy_pool_id = pool_id buy_pool, po_sell_pool_id = pool_id sell_pool,
     po_buy_pool_url = url buy_pool, po_sell_pool_url = url sell_pool,
     po_buy_price = buy_price buy_pool, po_sell_price = sell_price sell_pool,
     po_spread_brut = scenario_brut buy_pool sell_pool,
     po_spread_net = scenario_net buy_pool sell_pool,
     po_total_fees_pct = scenario_fee buy_pool sell_pool\<rparr>"

definition compute_pool_arbitrage ::
  "scan_pool \<Rightarrow> scan_pool \<Rightarrow> string \<Rightarrow> pair_opportunity option" where
  "compute_pool_arbitrage pool_a pool_b tok =
    (let buy_price_a = buy_price pool_a;
         sell_price_a = sell_price pool_a;
         buy_price_b = buy_price pool_b;
         sell_price_b = sell_price pool_b
     in if min buy_price_a (min sell_price_a (min buy_price_b sell_price_b)) \<le> 0 then None
        else
          (let spread1_net = scenario_net pool_a pool_b;
               spread2_net = scenario_net pool_b pool_a
           in if spread1_net \<le> 0 \<and> spread2_net \<le> 0 then None
              else if spread1_net \<ge> spread2_net then Some (pair_result tok pool_a pool_b)
              else Some (pair_result tok pool_b pool_a)))"

section \<open>Anti-spam (main.py)\<close>

text \<open>
  The two module-level dicts are the state; \<open>time.time()\<close> is the argument \<open>now\<close>.
\<close>

record antispam =
  recent_opportunities :: "string \<rightharpoonup> real"
  recent_tokens :: "string \<rightharpoonup> real"

definition OPPORTUNITY_COOLDOWN :: real where
  "OPPORTUNITY_COOLDOWN = 15 * 60"

definition TOKEN_COOLDOWN :: real where
  "TOKEN_COOLDOWN = 5 * 60"

definition should_send_notification :: "antispam \<Rightarrow> real \<Rightarrow> string \<Rightarrow> string \<Rightarrow> bool" where
  "should_send_notification st now tok opportunity_hash =
    (let blocked_by_opportunity =
           (case recent_opportunities st opportunity_hash of
              None \<Rightarrow> False
            | Some last_sent \<Rightarrow> now - last_sent < OPPORTUNITY_COOLDOWN)
     in if blocked_by_opportunity then False
        else
          (let blocked_by_token =
                 (case recent_tokens st tok of
                    None \<Rightarrow> False
                  | Some last_sent \<Rightarrow> now - last_sent < TOKEN_COOLDOWN)
           in if blocked_by_token then False else True))"

definition purge :: "real \<Rightarrow> (string \<rightharpoonup> real) \<Rightarrow> (string \<rightharpoonup> real)" where
  \<comment> \<open>\<open>{k: v for k, v in d.items() if v > cleanup_threshold}\<close>\<close>
  "purge cleanup_threshold d =
    (\<lambda>k. case d k of None \<Rightarrow> None
                    | Some v \<Rightarrow> if v > cleanup_threshold then Some v else None)"

definition record_notification :: "antispam \<Rightarrow> real \<Rightarrow> string \<Rightarrow> string \<Rightarrow> antispam" where
  "record_notification st now tok opportunity_hash =
    (let opportunities = (recent_opportunities st)(opportunity_hash \<mapsto> now);
         tokens = (recent_tokens st)(tok \<mapsto> now);
         cleanup_threshold = now - 3600
     in \<lparr>recent_opportunities = purge cleanup_threshold opportunities,
         recent_tokens = purge cleanup_threshold tokens\<rparr>)"

section \<open>Pool cache (pool_fetchers.py)\<close>






section \<open>Statistics named by the specification\<close>




section \<open>Example inputs\<close>


definition tie_pool_a :: scan_pool where
  "tie_pool_a = \<lparr>pool_id = ''poolA'', dex = ''raydium'', fee_pct = 0.0025, fee_bps = 25,
     liquidity_usd = 200000, pool_type = ''CLMM'', buy_price = 1 / 2, sell_price = 2,
     url = ''https://raydium.io/pool/poolA'', token = ''TOK'', chain = ''solana''\<rparr>"

definition tie_pool_b :: scan_pool where
  "tie_pool_b = \<lparr>pool_id = ''poolB'', dex = ''orca'', fee_pct = 0.003, fee_bps = 30,
     liquidity_usd = 200000, pool_type = ''Whirlpool'', buy_price = 1 / 2, sell_price = 2,
     url = ''https://www.orca.so/whirlpools/poolB'', token = ''TOK'', chain = ''solana''\<rparr>"

definition cheap_pool :: scan_pool where
  "cheap_pool = \<lparr>pool_id = ''pool1'', dex = ''raydium'', fee_pct = 0.003, fee_bps = 30,
     liquidity_usd = 200000, pool_type = ''CLMM'', buy_price = 1, sell_price = 1,
     url = ''https://raydium.io/pool/pool1'', token = ''TOK'', chain = ''solana''\<rparr>"

definition dear_pool :: scan_pool where
  "dear_pool = \<lparr>pool_id = ''pool2'', dex = ''orca'', fee_pct = 0.0025, fee_bps = 25,
     liquidity_usd = 200000, pool_type = ''Whirlpool'', buy_price = 1.01, sell_price = 1.01,
     url = ''https://www.orca.so/whirlpools/pool2'', token = ''TOK'', chain = ''solana''\<rparr>"

definition wide_pool_a :: norm_pool where
  "wide_pool_a = \<lparr>pool_id = ''pool1'', dex = ''raydium'', fee_pct = 0.003, fee_bps = 30,
     liquidity_usd = 200000, pool_type = ''CLMM'', buy_price = 99, sell_price = 99,
     url = ''https://raydium.io/pool/pool1''\<rparr>"

definition wide_pool_b :: norm_pool where
  "wide_pool_b = \<lparr>pool_id = ''pool2'', dex = ''orca'', fee_pct = 0.0025, fee_bps = 25,
     liquidity_usd = 200000, pool_type = ''Whirlpool'', buy_price = 101, sell_price = 123.75,
     url = ''https://www.orca.so/whirlpools/pool2''\<rparr>"






section \<open>MEV risk tiers\<close>

text \<open>
  C3. For a token outside the major-token allow-list, \<open>assess_mev_risk\<close> rejects with
  risk level high exactly when (spread_brut > 5% and liquidity < 50k) or liquidity < 10k;
  otherwise it reports medium without rejecting when liquidity < 50k or spread_brut > 3%,
  and low in every remaining case. For a token on the allow-list it reports low, a zero
  slippage buffer and no rejection, whatever the spread and the liquidity.
\<close>

theorem assess_mev_risk_tiers:
  "(token_mint \<notin> MAJOR_TOKENS \<longrightarrow>
      (let m = assess_mev_risk token_mint liq_usd spread_brut;
           high = ((spread_brut > 0.05 \<and> liq_usd < 50000) \<or> liq_usd < 10000);
           medium = (liq_usd < 50000 \<or> spread_brut > 0.03)
       in (should_reject m \<longleftrightarrow> high) \<and>
          (risk_level m = High \<longleftrightarrow> high) \<and>
          (risk_level m = Medium \<longleftrightarrow> \<not> high \<and> medium) \<and>
          (risk_level m = Low \<longleftrightarrow> \<not> high \<and> \<not> medium))) \<and>
   (token_mint \<in> MAJOR_TOKENS \<longrightarrow>
      (let m = assess_mev_risk token_mint liq_usd spread_brut
       in risk_level m = Low \<and> slippage_buffer m = 0 \<and> \<not> should_reject m))"
  by (auto simp: assess_mev_risk_def Let_def)

theorem assess_mev_risk_tiers_witness:
  "''bonk'' \<notin> MAJOR_TOKENS \<and>
   should_reject (assess_mev_risk ''bonk'' 20000 0.06) \<and>
   risk_level (assess_mev_risk ''bonk'' 20000 0.06) = High \<and>
   ''So11111111111111111111111111111111111111112'' \<in> MAJOR_TOKENS \<and>
   risk_level (assess_mev_risk ''So11111111111111111111111111111111111111112'' 20000 0.06) = Low \<and>
   \<not> should_reject (assess_mev_risk ''So11111111111111111111111111111111111111112'' 20000 0.06)"
  using assess_mev_risk_tiers [of "''bonk''" 20000 "0.06"]
    assess_mev_risk_tiers [of "''So11111111111111111111111111111111111111112''" 20000 "0.06"]
  by (simp add: MAJOR_TOKENS_def Let_def)

section \<open>Bounds of the slippage and price-impact estimates\<close>








section \<open>Pool cache: TTL tiers and expiry\<close>



section \<open>Anti-spam cooldowns\<close>

lemma purge_upd_same: "purge (now - 3600) (m(k \<mapsto> now)) k = Some now"
  by (simp add: purge_def)

text \<open>
  C6. After \<open>record_notification\<close> for a token and a hash at time \<open>t0\<close>,
  \<open>should_send_notification\<close> for the same hash is false at every time less than 15
  minutes after \<open>t0\<close> and true from 15 minutes on. A different hash of the same token is
  refused at every time less than 5 minutes after \<open>t0\<close>, and accepted from 5 minutes on,
  that hash not being within the 15 minutes of a notification of its own.
\<close>

theorem notification_cooldowns:
  "(let st' = record_notification st t0 tok h in
    (t - t0 < 15 * 60 \<longrightarrow> \<not> should_send_notification st' t tok h) \<and>
    (t - t0 \<ge> 15 * 60 \<longrightarrow> should_send_notification st' t tok h) \<and>
    (h' \<noteq> h \<longrightarrow> t - t0 < 5 * 60 \<longrightarrow> \<not> should_send_notification st' t tok h') \<and>
    (h' \<noteq> h \<longrightarrow> t - t0 \<ge> 5 * 60 \<longrightarrow>
       (\<forall>t1. recent_opportunities st' h' = Some t1 \<longrightarrow> t - t1 \<ge> 15 * 60) \<longrightarrow>
       should_send_notification st' t tok h'))"
proof -
  have o: "recent_opportunities (record_notification st t0 tok h) h = Some t0"
    by (simp add: record_notification_def Let_def purge_upd_same)
  have k: "recent_tokens (record_notification st t0 tok h) tok = Some t0"
    by (simp add: record_notification_def Let_def purge_upd_same)
  show ?thesis
    unfolding Let_def [of "record_notification st t0 tok h"]
    using o k
    by (auto simp: should_send_notification_def Let_def OPPORTUNITY_COOLDOWN_def TOKEN_COOLDOWN_def
             split: option.splits)
qed

theorem notification_cooldowns_witness:
  "\<not> should_send_notification (record_notification \<lparr>recent_opportunities = Map.empty, recent_tokens = Map.empty\<rparr> 1000 ''T'' ''h1'') 1899 ''T'' ''h1'' \<and>
   should_send_notification (record_notification \<lparr>recent_opportunities = Map.empty, recent_tokens = Map.empty\<rparr> 1000 ''T'' ''h1'') 1900 ''T'' ''h1'' \<and>
   \<not> should_send_notification (record_notification \<lparr>recent_opportunities = Map.empty, recent_tokens = Map.empty\<rparr> 1000 ''T'' ''h1'') 1299 ''T'' ''h2'' \<and>
   should_send_notification (record_notification \<lparr>recent_opportunities = Map.empty, recent_tokens = Map.empty\<rparr> 1000 ''T'' ''h1'') 1300 ''T'' ''h2''"
  using notification_cooldowns [of "\<lparr>recent_opportunities = Map.empty, recent_tokens = Map.empty\<rparr>" 1000 "''T''" "''h1''" 1899 "''h2''"]
    notification_cooldowns [of "\<lparr>recent_opportunities = Map.empty, recent_tokens = Map.empty\<rparr>" 1000 "''T''" "''h1''" 1900 "''h2''"]
    notification_cooldowns [of "\<lparr>recent_opportunities = Map.empty, recent_tokens = Map.empty\<rparr>" 1000 "''T''" "''h1''" 1299 "''h2''"]
    notification_cooldowns [of "\<lparr>recent_opportunities = Map.empty, recent_tokens = Map.empty\<rparr>" 1000 "''T''" "''h1''" 1300 "''h2''"]
  by (simp add: Let_def record_notification_def purge_def)

section \<open>Normalised prices are reciprocal\<close>



section \<open>Normalisation of a pool and of its reverse\<close>




section \<open>Price coherence\<close>






section \<open>Direction symmetry of the pairwise evaluator\<close>

text \<open>
  C2, as stated, fails on a tie of the two directions: \<open>spread1_net >= spread2_net\<close>
  then takes the first argument as the buy pool, so the two argument orders pick opposite
  pools. Two normalised pools quote reciprocal prices, for which the two directions
  always tie.
\<close>

theorem pair_direction_tie_counterexample:
  "map_option (\<lambda>opp. (po_buy_pool_id opp, po_sell_pool_id opp))
      (compute_pool_arbitrage tie_pool_a tie_pool_b ''TOK'') = Some (''poolA'', ''poolB'') \<and>
   map_option (\<lambda>opp. (po_buy_pool_id opp, po_sell_pool_id opp))
      (compute_pool_arbitrage tie_pool_b tie_pool_a ''TOK'') = Some (''poolB'', ''poolA'')"
  by (simp add: compute_pool_arbitrage_def scenario_net_def scenario_brut_def scenario_fee_def
        pair_result_def tie_pool_a_def tie_pool_b_def Let_def)

lemma pair_net_sym:
  "map_option po_spread_net (compute_pool_arbitrage pool_a pool_b tok) =
   map_option po_spread_net (compute_pool_arbitrage pool_b pool_a tok)"
  by (auto simp: compute_pool_arbitrage_def pair_result_def Let_def min_def)

lemma pair_none_sym:
  "compute_pool_arbitrage pool_a pool_b tok = None \<longleftrightarrow> compute_pool_arbitrage pool_b pool_a tok = None"
  by (auto simp: compute_pool_arbitrage_def Let_def min_def split: if_splits)

lemma pair_same_when_differ:
  "scenario_net pool_a pool_b \<noteq> scenario_net pool_b pool_a \<Longrightarrow>
   compute_pool_arbitrage pool_a pool_b tok = compute_pool_arbitrage pool_b pool_a tok"
  by (auto simp: compute_pool_arbitrage_def Let_def min_def)

lemma pair_tie:
  "scenario_net pool_a pool_b = scenario_net pool_b pool_a \<Longrightarrow>
   compute_pool_arbitrage pool_a pool_b tok \<noteq> None \<Longrightarrow>
   compute_pool_arbitrage pool_a pool_b tok = Some (pair_result tok pool_a pool_b) \<and>
   compute_pool_arbitrage pool_b pool_a tok = Some (pair_result tok pool_b pool_a)"
  by (auto simp: compute_pool_arbitrage_def Let_def min_def split: if_splits)

text \<open>
  C2, amended. \<open>compute_pool_arbitrage(A, B, token)\<close> and
  \<open>compute_pool_arbitrage(B, A, token)\<close> produce the same spread_net, and one is null
  exactly when the other is. They select the same (buy, sell) pools, and then return the
  same result, whenever the net spreads of the two directions differ; when these are
  equal and positive, each call buys on its first argument and sells on its second.
\<close>

theorem pair_direction_symmetry:
  "map_option po_spread_net (compute_pool_arbitrage pool_a pool_b tok) =
     map_option po_spread_net (compute_pool_arbitrage pool_b pool_a tok) \<and>
   (compute_pool_arbitrage pool_a pool_b tok = None \<longleftrightarrow>
     compute_pool_arbitrage pool_b pool_a tok = None) \<and>
   (scenario_net pool_a pool_b \<noteq> scenario_net pool_b pool_a \<longrightarrow>
     compute_pool_arbitrage pool_a pool_b tok = compute_pool_arbitrage pool_b pool_a tok) \<and>
   (scenario_net pool_a pool_b = scenario_net pool_b pool_a \<and>
    compute_pool_arbitrage pool_a pool_b tok \<noteq> None \<longrightarrow>
     compute_pool_arbitrage pool_a pool_b tok = Some (pair_result tok pool_a pool_b) \<and>
     compute_pool_arbitrage pool_b pool_a tok = Some (pair_result tok pool_b pool_a))"
  using pair_net_sym pair_none_sym pair_same_when_differ pair_tie by blast

theorem pair_direction_symmetry_witness:
  "scenario_net cheap_pool dear_pool \<noteq> scenario_net dear_pool cheap_pool \<and>
   compute_pool_arbitrage cheap_pool dear_pool ''TOK'' = compute_pool_arbitrage dear_pool cheap_pool ''TOK'' \<and>
   map_option (\<lambda>opp. (po_buy_pool_id opp, po_sell_pool_id opp, po_spread_net opp))
     (compute_pool_arbitrage dear_pool cheap_pool ''TOK'') = Some (''pool1'', ''pool2'', 0.0045) \<and>
   scenario_net tie_pool_a tie_pool_b = scenario_net tie_pool_b tie_pool_a \<and>
   compute_pool_arbitrage tie_pool_a tie_pool_b ''TOK'' = Some (pair_result ''TOK'' tie_pool_a tie_pool_b) \<and>
   compute_pool_arbitrage tie_pool_b tie_pool_a ''TOK'' = Some (pair_result ''TOK'' tie_pool_b tie_pool_a)"
proof -
  have d: "scenario_net cheap_pool dear_pool \<noteq> scenario_net dear_pool cheap_pool"
    by (simp add: scenario_net_def scenario_brut_def scenario_fee_def cheap_pool_def dear_pool_def)
  have t: "scenario_net tie_pool_a tie_pool_b = scenario_net tie_pool_b tie_pool_a"
    by (simp add: scenario_net_def scenario_brut_def scenario_fee_def tie_pool_a_def tie_pool_b_def)
  have n: "compute_pool_arbitrage tie_pool_a tie_pool_b ''TOK'' \<noteq> None"
    by (simp add: compute_pool_arbitrage_def scenario_net_def scenario_brut_def scenario_fee_def
        tie_pool_a_def tie_pool_b_def Let_def)
  have v: "map_option (\<lambda>opp. (po_buy_pool_id opp, po_sell_pool_id opp, po_spread_net opp))
     (compute_pool_arbitrage dear_pool cheap_pool ''TOK'') = Some (''pool1'', ''pool2'', 0.0045)"
    by (simp add: compute_pool_arbitrage_def scenario_net_def scenario_brut_def scenario_fee_def
        pair_result_def cheap_pool_def dear_pool_def Let_def)
  show ?thesis
    using pair_direction_symmetry [of cheap_pool dear_pool "''TOK''"]
      pair_direction_symmetry [of tie_pool_a tie_pool_b "''TOK''"] d t n v
    by simp
qed

section \<open>Deep evaluator: the 20% guardrail\<close>

lemma third_guard: "c \<Longrightarrow> (if a then x else if b then x else if c then x else y) = x"
  by simp

lemma analyse_reject_wide:
  assumes "select_pools (filter_pools_by_liquidity fetched 10000) = Some (bp, sp)"
    and "gross_spread bp sp > 0.20"
  shows "analyse_pools cfg token_mint swap_size_usd fetched = Inr None"
  unfolding analyse_pools_def Let_def assms(1) option.case prod.case
  by (rule third_guard) (rule assms(2))

text \<open>
  C5. Whenever the pools that pass the liquidity filter yield a selected (buy, sell) pair
  whose gross spread is above 20%, \<open>compute_spread_and_metrics\<close> returns null, whatever
  the price coherence, the token, the swap size and the settings. The witness is the
  scenario of two pools 25% apart with coherence 0.9.
\<close>

theorem wide_spread_rejected:
  assumes "select_pools (filter_pools_by_liquidity fetched 10000) = Some (bp, sp)"
    and "gross_spread bp sp > 0.20"
  shows "compute_spread_and_metrics cfg token_mint base_mint volume_24h swap_size_usd fetched = Inr None"
  using analyse_reject_wide [OF assms]
  by (simp add: compute_spread_and_metrics_def)

lemma wide_select:
  "select_pools (filter_pools_by_liquidity [wide_pool_a, wide_pool_b] 10000) = Some (wide_pool_a, wide_pool_b)"
  by (simp add: select_pools_def filter_pools_by_liquidity_def sort_pools_by_buy_price_def
        sort_pools_by_sell_price_def wide_pool_a_def wide_pool_b_def Let_def)

theorem wide_spread_rejected_witness:
  "select_pools (filter_pools_by_liquidity [wide_pool_a, wide_pool_b] 10000) = Some (wide_pool_a, wide_pool_b) \<and>
   gross_spread wide_pool_a wide_pool_b = 0.25 \<and>
   calculate_price_coherence (pool_prices_dict (filter_pools_by_liquidity [wide_pool_a, wide_pool_b] 10000)) = 0.9 \<and>
   compute_spread_and_metrics default_settings ''TOK'' ''So11111111111111111111111111111111111111112''
      50000 1000 [wide_pool_a, wide_pool_b] = Inr None"
proof -
  have g: "gross_spread wide_pool_a wide_pool_b = 0.25"
    by (simp add: gross_spread_def wide_pool_a_def wide_pool_b_def)
  then have g': "gross_spread wide_pool_a wide_pool_b > 0.20" by simp
  have c: "calculate_price_coherence (pool_prices_dict (filter_pools_by_liquidity [wide_pool_a, wide_pool_b] 10000)) = 0.9"
    by (simp add: calculate_price_coherence_def pool_prices_dict_def filter_pools_by_liquidity_def
          dict_values_def wide_pool_a_def wide_pool_b_def Let_def)
  show ?thesis
    using wide_spread_rejected [OF wide_select g'] wide_select g c by simp
qed

section \<open>Deep evaluator: threshold and MEV rejection\<close>















end
